theory Spec2Isabelle
  imports Complex_Main "HOL-Library.AList"
begin

section \<open>Python values\<close>

text \<open>
  The client exchanges JSON documents with the payment provider.  A document is a Python
  value built from \<open>None\<close>, booleans, integers, floats, strings, lists and dictionaries.
  Strings are \<^typ>\<open>string\<close>, a character standing for the code point of the same number
  (the model covers text of code points below 256).  A float is a finite rational
  (every finite binary64 value is one), an infinity or a NaN.  A dictionary is an association
  list in insertion order: \<^const>\<open>map_of\<close> reads a key and \<^const>\<open>AList.update\<close> stores one,
  replacing the value in place when the key exists and appending the pair otherwise, as
  \<open>d[k] = v\<close> does.
\<close>

datatype pyfloat = Finite rat | PosInf | NegInf | NaN

datatype json =
    JNull
  | JBool bool
  | JInt int
  | JFloat pyfloat
  | JStr string
  | JArr "json list"
  | JObj "(string \<times> json) list"

type_synonym dict = "(string \<times> json) list"

section \<open>Failures\<close>

text \<open>
  Every exception that can leave the client is a value of \<open>error\<close>, and a function that may
  raise returns \<open>error + 'a\<close> with \<^const>\<open>Inl\<close> for the exception.

  Modelled from the spec: the classes \<open>WalletPayException\<close>, \<open>CreateOrderException\<close>,
  \<open>GetOrderPreviewException\<close>, \<open>GetOrderListException\<close> and \<open>GetOrderAmountException\<close> of
  \<open>WalletPay.types\<close> are imported by the client and declared elsewhere.  The specification
  describes a failure as a value carrying the raw response payload and a message, with one
  subtype per failing operation, and the transport failure as carrying a message only.  Each
  constructor below therefore keeps the arguments of the call that builds the exception, in
  the order the client passes them: the message for \<open>WalletPayException\<close>, the payload and
  the message for the four others.

  The remaining constructors are the built-in exceptions the interpreter raises in the code
  paths of the client, and \<open>Propagated\<close> stands for an exception of the HTTP stack that is
  not an \<open>aiohttp.ClientError\<close> and passes through the client unchanged.
\<close>

datatype error =
    WalletPayException json
  | CreateOrderException json string
  | GetOrderPreviewException json string
  | GetOrderListException json string
  | GetOrderAmountException json string
  | AttributeError
  | TypeError
  | ValueError
  | OverflowError
  | Propagated string

definition bind_result :: "error + 'a \<Rightarrow> ('a \<Rightarrow> error + 'b) \<Rightarrow> error + 'b" where
  "bind_result r f = (case r of Inl e \<Rightarrow> Inl e | Inr x \<Rightarrow> f x)"

section \<open>Built-in operations the client relies on\<close>

text \<open>
  \<open>x.get(key, default)\<close>: a dictionary answers with the stored value or the default; every
  other JSON value has no attribute \<open>get\<close>.
\<close>

fun py_get :: "json \<Rightarrow> string \<Rightarrow> json \<Rightarrow> error + json" where
  "py_get (JObj d) key dflt = Inr (case map_of d key of Some v \<Rightarrow> v | None \<Rightarrow> dflt)"
| "py_get _ key dflt = Inl AttributeError"

text \<open>The truth value of an object in a condition such as \<open>if return_url:\<close>.\<close>

fun truthy :: "json \<Rightarrow> bool" where
  "truthy JNull = False"
| "truthy (JBool b) = b"
| "truthy (JInt n) = (n \<noteq> 0)"
| "truthy (JFloat f) = (f \<noteq> Finite 0)"
| "truthy (JStr s) = (s \<noteq> [])"
| "truthy (JArr xs) = (xs \<noteq> [])"
| "truthy (JObj d) = (d \<noteq> [])"

text \<open>
  Iteration, as in a list comprehension: a list yields its elements, a string its
  characters, a dictionary its keys; the other values are not iterable.
\<close>

fun py_iter :: "json \<Rightarrow> error + json list" where
  "py_iter (JArr xs) = Inr xs"
| "py_iter (JStr s) = Inr (map (\<lambda>c. JStr [c]) s)"
| "py_iter (JObj d) = Inr (map (\<lambda>kv. JStr (fst kv)) d)"
| "py_iter _ = Inl TypeError"

text \<open>
  \<open>[f(x) for x in xs]\<close> calls \<open>f\<close> on the elements from left to right; the first call that
  raises ends the comprehension with that exception.
\<close>

fun map_result :: "('a \<Rightarrow> error + 'b) \<Rightarrow> 'a list \<Rightarrow> error + 'b list" where
  "map_result f [] = Inr []"
| "map_result f (x # xs) =
     bind_result (f x) (\<lambda>y. bind_result (map_result f xs) (\<lambda>ys. Inr (y # ys)))"

subsection \<open>The built-in \<open>int\<close>\<close>

text \<open>
  \<open>int(s)\<close> for a string: surrounding whitespace is dropped, one sign is allowed, and what
  remains must be decimal digits, where a single underscore may stand between two digits.
  Whitespace is the space, the five control characters from tab to carriage return, and the
  two code points U+0085 and U+00A0.
  A text of more than \<open>max_str_digits\<close> digits is refused (the interpreter's default limit
  for the conversion of strings to integers).  Anything else raises \<open>ValueError\<close>.
\<close>

definition is_space :: "char \<Rightarrow> bool" where
  "is_space c =
     (c \<in> {CHR '' '', CHR 0x09, CHR 0x0A, CHR 0x0B, CHR 0x0C, CHR 0x0D, CHR 0x85, CHR 0xA0})"

definition digit_val :: "char \<Rightarrow> nat option" where
  "digit_val c =
     (let n = (of_char c :: nat) in if 48 \<le> n \<and> n \<le> 57 then Some (n - 48) else None)"

fun digits_acc :: "nat \<Rightarrow> string \<Rightarrow> nat option" where
  "digits_acc acc [] = Some acc"
| "digits_acc acc (c # cs) =
     (if c = CHR ''_'' then
        (case cs of
           [] \<Rightarrow> None
         | d # ds \<Rightarrow>
             (case digit_val d of None \<Rightarrow> None | Some v \<Rightarrow> digits_acc (acc * 10 + v) ds))
      else
        (case digit_val c of None \<Rightarrow> None | Some v \<Rightarrow> digits_acc (acc * 10 + v) cs))"

definition unsigned_of_str :: "string \<Rightarrow> nat option" where
  "unsigned_of_str s =
     (case s of
        [] \<Rightarrow> None
      | c # cs \<Rightarrow> (case digit_val c of None \<Rightarrow> None | Some v \<Rightarrow> digits_acc v cs))"

definition strip :: "string \<Rightarrow> string" where
  "strip s = rev (dropWhile is_space (rev (dropWhile is_space s)))"

definition max_str_digits :: nat where
  "max_str_digits = 4300"

definition int_of_str :: "string \<Rightarrow> error + int" where
  "int_of_str s =
     (let t = strip s;
          r = (case t of
                 [] \<Rightarrow> None
               | c # cs \<Rightarrow>
                   if c = CHR ''-'' then map_option (\<lambda>n. - int n) (unsigned_of_str cs)
                   else if c = CHR ''+'' then map_option int (unsigned_of_str cs)
                   else map_option int (unsigned_of_str t))
      in if max_str_digits < length (filter (\<lambda>c. digit_val c \<noteq> None) t) then Inl ValueError
         else (case r of None \<Rightarrow> Inl ValueError | Some n \<Rightarrow> Inr n))"

text \<open>
  \<open>int(x)\<close> for a JSON value: an integer is returned as it is, a boolean is 0 or 1, a
  finite float is truncated towards zero, an infinity raises \<open>OverflowError\<close> and a NaN
  \<open>ValueError\<close>, a string is parsed, and \<open>None\<close>, lists and dictionaries raise \<open>TypeError\<close>.
\<close>

fun py_int :: "json \<Rightarrow> error + int" where
  "py_int JNull = Inl TypeError"
| "py_int (JBool b) = Inr (if b then 1 else 0)"
| "py_int (JInt n) = Inr n"
| "py_int (JFloat (Finite q)) = Inr (if 0 \<le> q then \<lfloor>q\<rfloor> else \<lceil>q\<rceil>)"
| "py_int (JFloat NaN) = Inl ValueError"
| "py_int (JFloat _) = Inl OverflowError"
| "py_int (JStr s) = int_of_str s"
| "py_int (JArr _) = Inl TypeError"
| "py_int (JObj _) = Inl TypeError"

subsection \<open>Formatting an integer\<close>

text \<open>
  An integer inside an f-string is written in decimal, with a minus sign when negative.
  The functions below describe the text of an integer of at most \<open>max_str_digits\<close> digits;
  the interpreter refuses to format a longer one, and that refusal is not part of the model.
\<close>

fun str_of_nat :: "nat \<Rightarrow> string" where
  "str_of_nat n =
     (if n < 10 then [char_of (48 + n)]
      else str_of_nat (n div 10) @ [char_of (48 + n mod 10)])"

declare str_of_nat.simps [simp del]

definition str_of_int :: "int \<Rightarrow> string" where
  "str_of_int i = (if i < 0 then CHR ''-'' # str_of_nat (nat (- i)) else str_of_nat (nat i))"

section \<open>The HTTP layer\<close>

text \<open>
  A request is what the client hands to \<open>session.post\<close> or \<open>session.get\<close>: the method, the
  URL, the headers (a dictionary of three entries, kept in insertion order) and the value
  of the \<open>json\<close> argument (\<open>None\<close> when the call passes no body).

  The network is a parameter of the model.  Its answer to a request is one of: a response
  with its status and the value that \<open>response.json()\<close> returns; an \<open>aiohttp.ClientError\<close>
  with its text; or another exception, which the client does not catch.
\<close>

record http_request =
  req_method :: string
  req_url :: string
  req_headers :: "(string \<times> string) list"
  req_json :: "json option"

datatype http_reply =
    Response int json
  | ClientError string
  | OtherError string

type_synonym network = "http_request \<Rightarrow> http_reply"

text \<open>The network that gives the same reply to every request.\<close>

definition constant_network :: "http_reply \<Rightarrow> network" where
  "constant_network reply req = reply"

section \<open>The client\<close>

definition BASE_URL :: string where
  "BASE_URL = ''https://pay.wallet.tg/wpay/store-api/v1/''"

text \<open>
  \<open>_make_request\<close> returns the parsed response or raises, and performs at most one HTTP
  call.  The second component of the result lists the requests the call has performed.
\<close>

definition make_request ::
  "string \<Rightarrow> network \<Rightarrow> string \<Rightarrow> string \<Rightarrow> dict option \<Rightarrow> (error + json) \<times> http_request list"
where
  "make_request api_key net method endpoint data =
     (let headers = [(''Wpay-Store-Api-Key'', api_key),
                     (''Content-Type'', ''application/json''),
                     (''Accept'', ''application/json'')];
          url = BASE_URL @ endpoint;
          after = (\<lambda>req.
            (case net req of
               ClientError e \<Rightarrow> Inl (WalletPayException (JStr (''API request failed: '' @ e)))
             | OtherError x \<Rightarrow> Inl (Propagated x)
             | Response status response_data \<Rightarrow>
                 if status \<noteq> 200 then
                   bind_result (py_get response_data ''message'' (JStr ''Unknown error''))
                     (\<lambda>m. Inl (WalletPayException m))
                 else Inr response_data,
             [req]))
      in if method = ''POST'' then
           after \<lparr>req_method = ''POST'', req_url = url, req_headers = headers,
                  req_json = map_option JObj data\<rparr>
         else if method = ''GET'' then
           after \<lparr>req_method = ''GET'', req_url = url, req_headers = headers,
                  req_json = None\<rparr>
         else (Inl (WalletPayException (JStr ''Invalid HTTP method'')), []))"

text \<open>
  The result classes \<open>OrderPreview\<close> and \<open>OrderReconciliationItem\<close> are declared outside the
  client.  Their constructors are parameters of the operations: a function from the JSON
  value the client passes to the object built, or to the exception the constructor raises.
\<close>

definition create_order ::
  "string \<Rightarrow> network \<Rightarrow> (json \<Rightarrow> error + 'p) \<Rightarrow>
   json \<Rightarrow> json \<Rightarrow> json \<Rightarrow> json \<Rightarrow> json \<Rightarrow> json \<Rightarrow> json \<Rightarrow> json \<Rightarrow> json \<Rightarrow>
   (error + 'p) \<times> http_request list"
where
  "create_order api_key net OrderPreview amount currency_code description external_id
      timeout_seconds customer_telegram_user_id return_url fail_return_url custom_data =
     (let data = [(''amount'', JObj [(''currencyCode'', currency_code), (''amount'', amount)]),
                  (''description'', description),
                  (''externalId'', external_id),
                  (''timeoutSeconds'', timeout_seconds),
                  (''customerTelegramUserId'', customer_telegram_user_id)];
          data = (if truthy return_url then AList.update ''returnUrl'' return_url data
                  else data);
          data = (if truthy fail_return_url
                  then AList.update ''failReturnUrl'' fail_return_url data else data);
          data = (if truthy custom_data then AList.update ''customData'' custom_data data
                  else data);
          (r, sent) = make_request api_key net ''POST'' ''order'' (Some data)
      in (bind_result r (\<lambda>response_data.
            bind_result (py_get response_data ''status'' JNull) (\<lambda>status.
              if status = JStr ''SUCCESS'' then
                bind_result (py_get response_data ''data'' JNull) OrderPreview
              else Inl (CreateOrderException response_data ''Failed to create order''))),
          sent))"

definition get_order_preview ::
  "string \<Rightarrow> network \<Rightarrow> (json \<Rightarrow> error + 'p) \<Rightarrow> string \<Rightarrow> (error + 'p) \<times> http_request list"
where
  "get_order_preview api_key net OrderPreview order_id =
     (let (r, sent) = make_request api_key net ''GET'' (''order/preview?id='' @ order_id) None
      in (bind_result r (\<lambda>response_data.
            bind_result (py_get response_data ''status'' JNull) (\<lambda>status.
              if status = JStr ''SUCCESS'' then
                bind_result (py_get response_data ''data'' JNull) OrderPreview
              else Inl (GetOrderPreviewException response_data
                          ''Failed to retrieve order preview''))),
          sent))"

definition get_order_list ::
  "string \<Rightarrow> network \<Rightarrow> (json \<Rightarrow> error + 'i) \<Rightarrow> int \<Rightarrow> int \<Rightarrow>
   (error + 'i list) \<times> http_request list"
where
  "get_order_list api_key net OrderReconciliationItem offset count =
     (let (r, sent) = make_request api_key net ''GET''
            (''reconciliation/order-list?offset='' @ str_of_int offset @
             ''&count='' @ str_of_int count) None
      in (bind_result r (\<lambda>response_data.
            bind_result (py_get response_data ''status'' JNull) (\<lambda>status.
              if status = JStr ''SUCCESS'' then
                bind_result (py_get response_data ''data'' (JObj [])) (\<lambda>d.
                  bind_result (py_get d ''items'' (JArr [])) (\<lambda>orders_data.
                    bind_result (py_iter orders_data) (map_result OrderReconciliationItem)))
              else Inl (GetOrderListException response_data
                          ''Failed to retrieve order list''))),
          sent))"

definition get_order_amount ::
  "string \<Rightarrow> network \<Rightarrow> (error + int) \<times> http_request list"
where
  "get_order_amount api_key net =
     (let (r, sent) = make_request api_key net ''GET'' ''reconciliation/order-amount'' None
      in (bind_result r (\<lambda>response_data.
            bind_result (py_get response_data ''status'' JNull) (\<lambda>status.
              if status = JStr ''SUCCESS'' then
                bind_result (py_get response_data ''data'' (JObj [])) (\<lambda>d.
                  bind_result (py_get d ''totalAmount'' JNull) py_int)
              else Inl (GetOrderAmountException response_data
                          ''Failed to retrieve order amount''))),
          sent))"


text \<open>
  Modelled from the spec: the four operation failures are subtypes of the base failure
  \<open>WalletPayException\<close>, so an \<open>except WalletPayException\<close> clause of a caller catches
  exactly the exceptions below.
\<close>

fun is_walletpay_failure :: "error \<Rightarrow> bool" where
  "is_walletpay_failure (WalletPayException _) = True"
| "is_walletpay_failure (CreateOrderException _ _) = True"
| "is_walletpay_failure (GetOrderPreviewException _ _) = True"
| "is_walletpay_failure (GetOrderListException _ _) = True"
| "is_walletpay_failure (GetOrderAmountException _ _) = True"
| "is_walletpay_failure _ = False"

section \<open>Basic facts\<close>

lemma bind_result_Inl: "bind_result (Inl e) f = Inl e"
  by (simp add: bind_result_def)

lemma bind_result_Inr: "bind_result (Inr x) f = f x"
  by (simp add: bind_result_def)

lemma map_result_all_ok:
  "(\<forall>x \<in> set xs. f x = Inr (g x)) \<Longrightarrow> map_result f xs = Inr (map g xs)"
  by (induction xs) (simp_all add: bind_result_Inr)

lemma int_of_str_42: "int_of_str ''42'' = Inr 42"
  by (simp add: int_of_str_def strip_def is_space_def digit_val_def unsigned_of_str_def
      max_str_digits_def Let_def)

subsection \<open>Decimal numerals\<close>

text \<open>
  A non-empty string of the digits \<open>0\<close> to \<open>9\<close> is read as the number it denotes in base
  ten, with or without a sign in front, and the text \<open>str_of_nat\<close> writes is such a string.
\<close>

lemma digit_val_digit:
  "48 \<le> (of_char c :: nat) \<Longrightarrow> (of_char c :: nat) \<le> 57 \<Longrightarrow>
   digit_val c = Some (of_char c - 48)"
  by (simp add: digit_val_def)

lemma digit_not_special:
  assumes "48 \<le> (of_char c :: nat)" and "(of_char c :: nat) \<le> 57"
  shows "c \<noteq> CHR ''_''" and "c \<noteq> CHR ''-''" and "c \<noteq> CHR ''+''" and "\<not> is_space c"
  using assms by (auto simp add: is_space_def)

lemma digits_acc_digits:
  "\<forall>c \<in> set s. 48 \<le> (of_char c :: nat) \<and> (of_char c :: nat) \<le> 57 \<Longrightarrow>
   digits_acc acc s = Some (foldl (\<lambda>a c. 10 * a + (of_char c - 48)) acc s)"
proof (induction s arbitrary: acc)
  case Nil
  then show ?case by simp
next
  case (Cons c cs)
  then show ?case
    by (simp add: digit_val_digit digit_not_special(1) mult.commute)
qed

lemma strip_unchanged:
  assumes "s \<noteq> []" and "\<not> is_space (hd s)" and "\<not> is_space (last s)"
  shows "strip s = s"
proof -
  have front: "dropWhile is_space s = s"
    using assms by (cases s) simp_all
  have "rev s \<noteq> []" and "\<not> is_space (hd (rev s))"
    using assms by (simp_all add: hd_rev)
  then have "dropWhile is_space (rev s) = rev s"
    by (cases "rev s") simp_all
  with front show ?thesis by (simp add: strip_def)
qed

lemma int_of_str_digits:
  assumes "s \<noteq> []"
    and "\<forall>c \<in> set s. 48 \<le> (of_char c :: nat) \<and> (of_char c :: nat) \<le> 57"
    and "length s \<le> 4300"
  shows "int_of_str s = Inr (int (foldl (\<lambda>a c. 10 * a + (of_char c - 48)) 0 s))"
proof -
  obtain c cs where s: "s = c # cs"
    using assms(1) by (cases s) auto
  have c: "48 \<le> (of_char c :: nat)" "(of_char c :: nat) \<le> 57"
    using assms(2) s by simp_all
  have "\<not> is_space (hd s)" "\<not> is_space (last s)"
    using assms(1,2) digit_not_special(4) by simp_all
  then have strip: "strip s = s"
    using assms(1) by (simp add: strip_unchanged)
  have count: "filter (\<lambda>c. digit_val c \<noteq> None) s = s"
    using assms(2) by (auto simp add: filter_id_conv digit_val_digit)
  have "unsigned_of_str s = Some (foldl (\<lambda>a c. 10 * a + (of_char c - 48)) 0 s)"
    using assms(2) s c by (simp add: unsigned_of_str_def digit_val_digit digits_acc_digits)
  then show ?thesis
    using strip count assms(3) s digit_not_special(2,3)[OF c]
    by (simp add: int_of_str_def Let_def max_str_digits_def)
qed

lemma int_of_str_minus_digits:
  assumes "s \<noteq> []"
    and "\<forall>c \<in> set s. 48 \<le> (of_char c :: nat) \<and> (of_char c :: nat) \<le> 57"
    and "length s \<le> 4300"
  shows "int_of_str (CHR ''-'' # s) =
         Inr (- int (foldl (\<lambda>a c. 10 * a + (of_char c - 48)) 0 s))"
proof -
  obtain c cs where s: "s = c # cs"
    using assms(1) by (cases s) auto
  have c: "48 \<le> (of_char c :: nat)" "(of_char c :: nat) \<le> 57"
    using assms(2) s by simp_all
  have last: "\<not> is_space (last s)"
    using assms(1,2) digit_not_special(4) by simp
  have strip: "strip (CHR ''-'' # s) = CHR ''-'' # s"
    using last assms(1) by (simp add: strip_unchanged is_space_def)
  have count: "filter (\<lambda>c. digit_val c \<noteq> None) s = s"
    using assms(2) by (auto simp add: filter_id_conv digit_val_digit)
  have u: "unsigned_of_str s = Some (foldl (\<lambda>a c. 10 * a + (of_char c - 48)) 0 s)"
    using assms(2) s c by (simp add: unsigned_of_str_def digit_val_digit digits_acc_digits)
  show ?thesis
    using strip count assms(3) u
    by (simp add: int_of_str_def Let_def max_str_digits_def digit_val_def)
qed

lemma str_of_nat_digits:
  "str_of_nat n \<noteq> []
   \<and> (\<forall>c \<in> set (str_of_nat n). 48 \<le> (of_char c :: nat) \<and> (of_char c :: nat) \<le> 57)
   \<and> foldl (\<lambda>a c. 10 * a + (of_char c - 48)) 0 (str_of_nat n) = n"
proof (induction n rule: str_of_nat.induct)
  case (1 n)
  show ?case
  proof (cases "n < 10")
    case True
    then show ?thesis
      by (subst (1 2 3) str_of_nat.simps) simp
  next
    case False
    have m: "(48 + n mod 10) mod 256 = 48 + n mod 10"
      by simp
    from False 1 show ?thesis
      by (subst (1 2 3) str_of_nat.simps) (simp add: m)
  qed
qed

lemma int_of_str_str_of_int:
  assumes "length (str_of_nat (nat \<bar>n\<bar>)) \<le> 4300"
  shows "int_of_str (str_of_int n) = Inr n"
proof (cases "n < 0")
  case True
  then have "int_of_str (str_of_int n) =
      Inr (- int (foldl (\<lambda>a c. 10 * a + (of_char c - 48)) 0 (str_of_nat (nat (- n)))))"
    using assms str_of_nat_digits [of "nat (- n)"]
    by (simp add: str_of_int_def int_of_str_minus_digits)
  with True show ?thesis
    by (simp add: str_of_nat_digits)
next
  case False
  then have "int_of_str (str_of_int n) =
      Inr (int (foldl (\<lambda>a c. 10 * a + (of_char c - 48)) 0 (str_of_nat (nat n))))"
    using assms str_of_nat_digits [of "nat n"]
    by (simp add: str_of_int_def int_of_str_digits)
  with False show ?thesis
    by (simp add: str_of_nat_digits)
qed

subsection \<open>The requests each call performs\<close>

lemma make_request_sent:
  "snd (make_request api_key net method endpoint data) =
     (if method = ''POST'' then
        [\<lparr>req_method = ''POST'', req_url = BASE_URL @ endpoint,
          req_headers = [(''Wpay-Store-Api-Key'', api_key),
                         (''Content-Type'', ''application/json''),
                         (''Accept'', ''application/json'')],
          req_json = map_option JObj data\<rparr>]
      else if method = ''GET'' then
        [\<lparr>req_method = ''GET'', req_url = BASE_URL @ endpoint,
          req_headers = [(''Wpay-Store-Api-Key'', api_key),
                         (''Content-Type'', ''application/json''),
                         (''Accept'', ''application/json'')],
          req_json = None\<rparr>]
      else [])"
  by (simp add: make_request_def Let_def)

lemma create_order_sent:
  "snd (create_order api_key net OrderPreview amount currency_code description external_id
          timeout_seconds customer_telegram_user_id return_url fail_return_url custom_data) =
   snd (make_request api_key net ''POST'' ''order''
     (Some ((if truthy custom_data then AList.update ''customData'' custom_data else id)
        ((if truthy fail_return_url then AList.update ''failReturnUrl'' fail_return_url else id)
          ((if truthy return_url then AList.update ''returnUrl'' return_url else id)
            [(''amount'', JObj [(''currencyCode'', currency_code), (''amount'', amount)]),
             (''description'', description),
             (''externalId'', external_id),
             (''timeoutSeconds'', timeout_seconds),
             (''customerTelegramUserId'', customer_telegram_user_id)])))))"
  by (simp add: create_order_def Let_def split_def)

lemma get_order_preview_sent:
  "snd (get_order_preview api_key net OrderPreview order_id) =
   snd (make_request api_key net ''GET'' (''order/preview?id='' @ order_id) None)"
  by (simp add: get_order_preview_def split_def Let_def)

lemma get_order_list_sent:
  "snd (get_order_list api_key net Item offset count) =
   snd (make_request api_key net ''GET''
          (''reconciliation/order-list?offset='' @ str_of_int offset @
           ''&count='' @ str_of_int count) None)"
  by (simp add: get_order_list_def split_def Let_def)

lemma get_order_amount_sent:
  "snd (get_order_amount api_key net) =
   snd (make_request api_key net ''GET'' ''reconciliation/order-amount'' None)"
  by (simp add: get_order_amount_def split_def Let_def)

subsection \<open>The result of each operation on a parsed envelope\<close>

text \<open>
  When the provider answers with status 200 and a JSON object, each operation either
  follows its success path or raises its own failure, and the choice depends on nothing but
  the value stored under \<open>status\<close>.
\<close>

lemma create_order_envelope:
  assumes "\<forall>req. net req = Response 200 (JObj env)"
  shows "fst (create_order api_key net OrderPreview amount currency_code description
            external_id timeout_seconds customer_telegram_user_id return_url fail_return_url
            custom_data) =
         (if map_of env ''status'' = Some (JStr ''SUCCESS'')
          then OrderPreview (case map_of env ''data'' of Some v \<Rightarrow> v | None \<Rightarrow> JNull)
          else Inl (CreateOrderException (JObj env) ''Failed to create order''))"
  using assms
  by (simp add: create_order_def make_request_def Let_def bind_result_Inr
      split: option.splits)

lemma get_order_preview_envelope:
  assumes "\<forall>req. net req = Response 200 (JObj env)"
  shows "fst (get_order_preview api_key net OrderPreview order_id) =
         (if map_of env ''status'' = Some (JStr ''SUCCESS'')
          then OrderPreview (case map_of env ''data'' of Some v \<Rightarrow> v | None \<Rightarrow> JNull)
          else Inl (GetOrderPreviewException (JObj env) ''Failed to retrieve order preview''))"
  using assms
  by (simp add: get_order_preview_def make_request_def Let_def bind_result_Inr
      split: option.splits)

lemma get_order_list_envelope:
  assumes "\<forall>req. net req = Response 200 (JObj env)"
  shows "fst (get_order_list api_key net Item offset count) =
         (if map_of env ''status'' = Some (JStr ''SUCCESS'')
          then bind_result (py_get (case map_of env ''data'' of Some v \<Rightarrow> v | None \<Rightarrow> JObj [])
                              ''items'' (JArr []))
                 (\<lambda>orders_data. bind_result (py_iter orders_data) (map_result Item))
          else Inl (GetOrderListException (JObj env) ''Failed to retrieve order list''))"
  using assms
  by (simp add: get_order_list_def make_request_def Let_def bind_result_Inr
      split: option.splits)

lemma get_order_amount_envelope:
  assumes "\<forall>req. net req = Response 200 (JObj env)"
  shows "fst (get_order_amount api_key net) =
         (if map_of env ''status'' = Some (JStr ''SUCCESS'')
          then bind_result (py_get (case map_of env ''data'' of Some v \<Rightarrow> v | None \<Rightarrow> JObj [])
                              ''totalAmount'' JNull) py_int
          else Inl (GetOrderAmountException (JObj env) ''Failed to retrieve order amount''))"
  using assms
  by (simp add: get_order_amount_def make_request_def Let_def bind_result_Inr
      split: option.splits)

section \<open>Envelope failures\<close>

text \<open>
  Claim C1.  Let the HTTP call return status 200 with a JSON object \<open>env\<close> as its parsed
  envelope.  If the value under \<open>status\<close> is not the string \<open>SUCCESS\<close> (the key may be
  missing), then \<open>create_order\<close> raises \<open>CreateOrderException\<close>, \<open>get_order_preview\<close> raises
  \<open>GetOrderPreviewException\<close>, \<open>get_order_list\<close> raises \<open>GetOrderListException\<close> and
  \<open>get_order_amount\<close> raises \<open>GetOrderAmountException\<close>, and the payload handed to the
  exception is the whole envelope, unchanged.
\<close>

theorem envelope_failure_keeps_payload:
  assumes "\<forall>req. net req = Response 200 (JObj env)"
    and "map_of env ''status'' \<noteq> Some (JStr ''SUCCESS'')"
  shows "fst (create_order api_key net OrderPreview amount currency_code description
            external_id timeout_seconds customer_telegram_user_id return_url fail_return_url
            custom_data) = Inl (CreateOrderException (JObj env) ''Failed to create order'')
       \<and> fst (get_order_preview api_key net OrderPreview order_id) =
           Inl (GetOrderPreviewException (JObj env) ''Failed to retrieve order preview'')
       \<and> fst (get_order_list api_key net Item offset count) =
           Inl (GetOrderListException (JObj env) ''Failed to retrieve order list'')
       \<and> fst (get_order_amount api_key net) =
           Inl (GetOrderAmountException (JObj env) ''Failed to retrieve order amount'')"
  using assms
  by (simp add: create_order_envelope get_order_preview_envelope get_order_list_envelope
      get_order_amount_envelope)

theorem envelope_failure_keeps_payload_witness:
  "fst (create_order ''k''
          (\<lambda>req. Response 200 (JObj [(''status'', JStr ''FAILED''), (''code'', JInt 7)]))
          (Inr :: json \<Rightarrow> error + json) (JFloat (Finite 10))
          (JStr ''USD'') (JStr ''desc'') (JStr ''ext-1'') (JInt 600) (JStr ''12345'')
          JNull JNull JNull) =
     Inl (CreateOrderException (JObj [(''status'', JStr ''FAILED''), (''code'', JInt 7)])
            ''Failed to create order'')
   \<and> fst (get_order_preview ''k''
          (\<lambda>req. Response 200 (JObj [(''status'', JStr ''FAILED''), (''code'', JInt 7)]))
          (Inr :: json \<Rightarrow> error + json) ''o1'') =
     Inl (GetOrderPreviewException (JObj [(''status'', JStr ''FAILED''), (''code'', JInt 7)])
            ''Failed to retrieve order preview'')
   \<and> fst (get_order_list ''k''
          (\<lambda>req. Response 200 (JObj [(''status'', JStr ''FAILED''), (''code'', JInt 7)]))
          (Inr :: json \<Rightarrow> error + json) 0 10) =
     Inl (GetOrderListException (JObj [(''status'', JStr ''FAILED''), (''code'', JInt 7)])
            ''Failed to retrieve order list'')
   \<and> fst (get_order_amount ''k''
          (\<lambda>req. Response 200 (JObj [(''status'', JStr ''FAILED''), (''code'', JInt 7)]))) =
     Inl (GetOrderAmountException (JObj [(''status'', JStr ''FAILED''), (''code'', JInt 7)])
            ''Failed to retrieve order amount'')"
  using envelope_failure_keeps_payload
    [of "\<lambda>req. Response 200 (JObj [(''status'', JStr ''FAILED''), (''code'', JInt 7)])"
        "[(''status'', JStr ''FAILED''), (''code'', JInt 7)]"
        "''k''" "Inr :: json \<Rightarrow> error + json" "JFloat (Finite 10)"
        "JStr ''USD''" "JStr ''desc''" "JStr ''ext-1''" "JInt 600" "JStr ''12345''"
        JNull JNull JNull "''o1''" "Inr :: json \<Rightarrow> error + json" 0 10]
  by simp

text \<open>
  Claim C10.  The success check compares the value under \<open>status\<close> with the string
  \<open>SUCCESS\<close> and nothing else passes it.  For an envelope (status 200, JSON object) in
  which \<open>status\<close> is missing, or present with any value other than that string, be it a
  string in another case or a value that is no string at all, each of the four operations
  raises its own failure with the envelope as payload; none of them raises another
  exception and none returns a result.
\<close>

theorem success_check_is_exact:
  assumes "\<forall>req. net req = Response 200 (JObj env)"
    and "map_of env ''status'' = None \<or>
         (\<exists>v. map_of env ''status'' = Some v \<and> v \<noteq> JStr ''SUCCESS'')"
  shows "fst (create_order api_key net OrderPreview amount currency_code description
            external_id timeout_seconds customer_telegram_user_id return_url fail_return_url
            custom_data) = Inl (CreateOrderException (JObj env) ''Failed to create order'')
       \<and> fst (get_order_preview api_key net OrderPreview order_id) =
           Inl (GetOrderPreviewException (JObj env) ''Failed to retrieve order preview'')
       \<and> fst (get_order_list api_key net Item offset count) =
           Inl (GetOrderListException (JObj env) ''Failed to retrieve order list'')
       \<and> fst (get_order_amount api_key net) =
           Inl (GetOrderAmountException (JObj env) ''Failed to retrieve order amount'')"
  using assms
  by (auto simp add: create_order_envelope get_order_preview_envelope
      get_order_list_envelope get_order_amount_envelope)

theorem success_check_is_exact_witness:
  "fst (get_order_amount ''k'' (\<lambda>req. Response 200 (JObj [(''data'', JObj [])]))) =
     Inl (GetOrderAmountException (JObj [(''data'', JObj [])])
            ''Failed to retrieve order amount'')
   \<and> fst (get_order_amount ''k''
          (\<lambda>req. Response 200 (JObj [(''status'', JStr ''success'')]))) =
     Inl (GetOrderAmountException (JObj [(''status'', JStr ''success'')])
            ''Failed to retrieve order amount'')
   \<and> fst (get_order_amount ''k''
          (\<lambda>req. Response 200 (JObj [(''status'', JBool True)]))) =
     Inl (GetOrderAmountException (JObj [(''status'', JBool True)])
            ''Failed to retrieve order amount'')"
proof -
  have absent: "fst (get_order_amount ''k''
        (\<lambda>req. Response 200 (JObj [(''data'', JObj [])]))) =
      Inl (GetOrderAmountException (JObj [(''data'', JObj [])])
             ''Failed to retrieve order amount'')"
    using success_check_is_exact
      [where net = "\<lambda>req. Response 200 (JObj [(''data'', JObj [])])"
         and env = "[(''data'', JObj [])]" and api_key = "''k''",
       THEN conjunct2, THEN conjunct2, THEN conjunct2]
    by simp
  have lower: "fst (get_order_amount ''k''
        (\<lambda>req. Response 200 (JObj [(''status'', JStr ''success'')]))) =
      Inl (GetOrderAmountException (JObj [(''status'', JStr ''success'')])
             ''Failed to retrieve order amount'')"
    using success_check_is_exact
      [where net = "\<lambda>req. Response 200 (JObj [(''status'', JStr ''success'')])"
         and env = "[(''status'', JStr ''success'')]" and api_key = "''k''",
       THEN conjunct2, THEN conjunct2, THEN conjunct2]
    by simp
  have other: "fst (get_order_amount ''k''
        (\<lambda>req. Response 200 (JObj [(''status'', JBool True)]))) =
      Inl (GetOrderAmountException (JObj [(''status'', JBool True)])
             ''Failed to retrieve order amount'')"
    using success_check_is_exact
      [where net = "\<lambda>req. Response 200 (JObj [(''status'', JBool True)])"
         and env = "[(''status'', JBool True)]" and api_key = "''k''",
       THEN conjunct2, THEN conjunct2, THEN conjunct2]
    by simp
  from absent lower other show ?thesis by simp
qed

section \<open>Transport failures\<close>

text \<open>
  Claim C2, amended.  Whenever \<open>_make_request\<close> has performed a request and the response
  to it has a status other than 200 and a JSON object as parsed body, the call raises
  \<open>WalletPayException\<close>.  The message of the exception is the value stored under \<open>message\<close>
  in the body when the key is present, and the string \<open>Unknown error\<close> when it is absent.
  The claim as written speaks of every response with a status other than 200; it holds for
  the responses whose parsed body is an object, and the statement below says nothing about
  the others.
\<close>

theorem non_200_raises_transport_failure:
  assumes "req \<in> set (snd (make_request api_key net method endpoint data))"
    and "net req = Response status (JObj body)"
    and "status \<noteq> 200"
  shows "fst (make_request api_key net method endpoint data) =
         Inl (WalletPayException
               (case map_of body ''message'' of
                  Some m \<Rightarrow> m
                | None \<Rightarrow> JStr ''Unknown error''))"
  using assms
  by (auto simp add: make_request_def Let_def bind_result_Inr split: if_splits)

theorem non_200_raises_transport_failure_witness:
  "fst (make_request ''k''
          (\<lambda>req. Response 401 (JObj [(''message'', JStr ''Invalid API key'')]))
          ''GET'' ''reconciliation/order-amount'' None) =
     Inl (WalletPayException (JStr ''Invalid API key''))
   \<and> fst (make_request ''k'' (\<lambda>req. Response 500 (JObj [])) ''POST'' ''order'' (Some [])) =
     Inl (WalletPayException (JStr ''Unknown error''))"
proof -
  have present: "fst (make_request ''k''
          (\<lambda>req. Response 401 (JObj [(''message'', JStr ''Invalid API key'')]))
          ''GET'' ''reconciliation/order-amount'' None) =
     Inl (WalletPayException (JStr ''Invalid API key''))"
    using non_200_raises_transport_failure
      [of "\<lparr>req_method = ''GET'', req_url = BASE_URL @ ''reconciliation/order-amount'',
            req_headers = [(''Wpay-Store-Api-Key'', ''k''),
                           (''Content-Type'', ''application/json''),
                           (''Accept'', ''application/json'')],
            req_json = None\<rparr>"
          "''k''" "\<lambda>req. Response 401 (JObj [(''message'', JStr ''Invalid API key'')])"
          "''GET''" "''reconciliation/order-amount''" None 401
          "[(''message'', JStr ''Invalid API key'')]"]
    by (simp add: make_request_sent)
  have absent: "fst (make_request ''k'' (\<lambda>req. Response 500 (JObj [])) ''POST'' ''order''
                   (Some [])) = Inl (WalletPayException (JStr ''Unknown error''))"
    using non_200_raises_transport_failure
      [of "\<lparr>req_method = ''POST'', req_url = BASE_URL @ ''order'',
            req_headers = [(''Wpay-Store-Api-Key'', ''k''),
                           (''Content-Type'', ''application/json''),
                           (''Accept'', ''application/json'')],
            req_json = Some (JObj [])\<rparr>"
          "''k''" "\<lambda>req. Response 500 (JObj [])" "''POST''" "''order''" "Some []" 500 "[]"]
    by (simp add: make_request_sent)
  from present absent show ?thesis by simp
qed

text \<open>
  The restriction to object bodies is needed.  A response with status 500 whose body is the
  JSON list \<open>[]\<close> is answered to a performed request, its body has no \<open>message\<close> field, and
  the call raises \<open>AttributeError\<close>, not \<open>WalletPayException\<close> with \<open>Unknown error\<close>: the
  lookup \<open>response_data.get\<close> is applied to a list.  The same happens for the body \<open>null\<close>.
\<close>

theorem non_200_non_object_body_counterexample:
  "make_request ''k'' (constant_network (Response 500 (JArr []))) ''GET''
      ''reconciliation/order-amount'' None =
     (Inl AttributeError,
      [\<lparr>req_method = ''GET'',
        req_url = ''https://pay.wallet.tg/wpay/store-api/v1/reconciliation/order-amount'',
        req_headers = [(''Wpay-Store-Api-Key'', ''k''),
                       (''Content-Type'', ''application/json''),
                       (''Accept'', ''application/json'')],
        req_json = None\<rparr>])
   \<and> fst (make_request ''k'' (constant_network (Response 500 (JArr []))) ''GET''
            ''reconciliation/order-amount'' None) \<noteq>
       Inl (WalletPayException (JStr ''Unknown error''))
   \<and> fst (make_request ''k'' (constant_network (Response 500 JNull)) ''POST'' ''order'' None) =
       Inl AttributeError"
  by (simp add: make_request_def Let_def constant_network_def bind_result_Inl BASE_URL_def)

text \<open>
  Claim C7.  Called with a method that is neither \<open>POST\<close> nor \<open>GET\<close>, \<open>_make_request\<close>
  raises \<open>WalletPayException\<close> with the message \<open>Invalid HTTP method\<close>, and the list of
  requests it has performed is empty: the exception precedes any network call.
\<close>

theorem invalid_method_raises_before_any_call:
  assumes "method \<noteq> ''POST''" and "method \<noteq> ''GET''"
  shows "make_request api_key net method endpoint data =
         (Inl (WalletPayException (JStr ''Invalid HTTP method'')), [])"
  using assms by (simp add: make_request_def)

theorem invalid_method_raises_before_any_call_witness:
  "make_request ''k'' (\<lambda>req. Response 200 (JObj [])) ''DELETE'' ''order'' None =
     (Inl (WalletPayException (JStr ''Invalid HTTP method'')), [])
   \<and> make_request ''k'' (\<lambda>req. Response 200 (JObj [])) ''post'' ''order'' None =
     (Inl (WalletPayException (JStr ''Invalid HTTP method'')), [])"
  using invalid_method_raises_before_any_call
      [of "''DELETE''" "''k''" "\<lambda>req. Response 200 (JObj [])" "''order''" None]
    invalid_method_raises_before_any_call
      [of "''post''" "''k''" "\<lambda>req. Response 200 (JObj [])" "''order''" None]
  by simp

section \<open>Outgoing requests\<close>

text \<open>
  Claim C8.  Every request \<open>_make_request\<close> performs has the URL
  \<open>https://pay.wallet.tg/wpay/store-api/v1/\<close> followed by the endpoint, and its headers
  are exactly \<open>Wpay-Store-Api-Key\<close> with the API key of the client, \<open>Content-Type\<close> with
  \<open>application/json\<close> and \<open>Accept\<close> with \<open>application/json\<close>.  With \<open>POST\<close> or \<open>GET\<close>
  exactly one request is performed, and each of the four operations performs exactly one
  request, to the base URL followed by the path of the operation.
\<close>

theorem requests_use_base_url_and_fixed_headers:
  "(\<forall>req \<in> set (snd (make_request api_key net method endpoint data)).
       req_url req = ''https://pay.wallet.tg/wpay/store-api/v1/'' @ endpoint
     \<and> req_headers req = [(''Wpay-Store-Api-Key'', api_key),
                           (''Content-Type'', ''application/json''),
                           (''Accept'', ''application/json'')])
   \<and> (method = ''POST'' \<or> method = ''GET'' \<longrightarrow>
        length (snd (make_request api_key net method endpoint data)) = 1)
   \<and> map req_url (snd (create_order api_key net OrderPreview amount currency_code description
        external_id timeout_seconds customer_telegram_user_id return_url fail_return_url
        custom_data)) = [''https://pay.wallet.tg/wpay/store-api/v1/'' @ ''order'']
   \<and> map req_url (snd (get_order_preview api_key net OrderPreview order_id)) =
        [''https://pay.wallet.tg/wpay/store-api/v1/'' @ ''order/preview?id='' @ order_id]
   \<and> map req_url (snd (get_order_list api_key net Item offset count)) =
        [''https://pay.wallet.tg/wpay/store-api/v1/'' @ ''reconciliation/order-list?offset='' @
         str_of_int offset @ ''&count='' @ str_of_int count]
   \<and> map req_url (snd (get_order_amount api_key net)) =
        [''https://pay.wallet.tg/wpay/store-api/v1/'' @ ''reconciliation/order-amount'']"
  by (simp add: make_request_sent create_order_sent get_order_preview_sent
      get_order_list_sent get_order_amount_sent BASE_URL_def)

theorem requests_use_base_url_and_fixed_headers_witness:
  "map req_url (snd (make_request ''secret'' (\<lambda>req. ClientError ''down'') ''GET''
                       ''order/preview?id=o1'' None)) =
     [''https://pay.wallet.tg/wpay/store-api/v1/order/preview?id=o1'']
   \<and> map req_headers (snd (make_request ''secret'' (\<lambda>req. ClientError ''down'') ''GET''
                       ''order/preview?id=o1'' None)) =
     [[(''Wpay-Store-Api-Key'', ''secret''),
       (''Content-Type'', ''application/json''),
       (''Accept'', ''application/json'')]]"
proof -
  let ?sent = "snd (make_request ''secret'' (\<lambda>req. ClientError ''down'') ''GET''
                 ''order/preview?id=o1'' None)"
  have all: "\<forall>req \<in> set ?sent.
       req_url req = ''https://pay.wallet.tg/wpay/store-api/v1/'' @ ''order/preview?id=o1''
     \<and> req_headers req = [(''Wpay-Store-Api-Key'', ''secret''),
                           (''Content-Type'', ''application/json''),
                           (''Accept'', ''application/json'')]"
    using requests_use_base_url_and_fixed_headers
      [of "''secret''" "\<lambda>req. ClientError ''down''" "''GET''" "''order/preview?id=o1''" None,
       THEN conjunct1]
    by simp
  have one: "length ?sent = 1"
    using requests_use_base_url_and_fixed_headers
      [of "''secret''" "\<lambda>req. ClientError ''down''" "''GET''" "''order/preview?id=o1''" None,
       THEN conjunct2, THEN conjunct1]
    by simp
  from one obtain r where sent: "?sent = [r]"
    by (cases ?sent) simp_all
  with all show ?thesis by simp
qed

text \<open>
  Claim C6.  The JSON body \<open>create_order\<close> sends is a dictionary that holds, under
  \<open>amount\<close>, the nested object with \<open>currencyCode\<close> and \<open>amount\<close>, and under \<open>description\<close>,
  \<open>externalId\<close>, \<open>timeoutSeconds\<close> and \<open>customerTelegramUserId\<close> the corresponding
  arguments.  The call \<open>create_order(10.0, "USD", "desc", "ext-1", 600, "12345")\<close> performs
  one \<open>POST\<close> to \<open>order\<close> whose body is exactly the dictionary of the specification's
  example, with these five keys in this order and no other.
\<close>

theorem create_order_body:
  "(\<exists>d. map req_json (snd (create_order api_key net OrderPreview amount currency_code
          description external_id timeout_seconds customer_telegram_user_id return_url
          fail_return_url custom_data)) = [Some (JObj d)]
     \<and> map_of d ''amount'' =
         Some (JObj [(''currencyCode'', currency_code), (''amount'', amount)])
     \<and> map_of d ''description'' = Some description
     \<and> map_of d ''externalId'' = Some external_id
     \<and> map_of d ''timeoutSeconds'' = Some timeout_seconds
     \<and> map_of d ''customerTelegramUserId'' = Some customer_telegram_user_id)
   \<and> snd (create_order api_key net OrderPreview (JFloat (Finite 10)) (JStr ''USD'')
        (JStr ''desc'') (JStr ''ext-1'') (JInt 600) (JStr ''12345'') JNull JNull JNull) =
       [\<lparr>req_method = ''POST'',
         req_url = ''https://pay.wallet.tg/wpay/store-api/v1/order'',
         req_headers = [(''Wpay-Store-Api-Key'', api_key),
                        (''Content-Type'', ''application/json''),
                        (''Accept'', ''application/json'')],
         req_json = Some (JObj
           [(''amount'', JObj [(''currencyCode'', JStr ''USD''),
                               (''amount'', JFloat (Finite 10))]),
            (''description'', JStr ''desc''),
            (''externalId'', JStr ''ext-1''),
            (''timeoutSeconds'', JInt 600),
            (''customerTelegramUserId'', JStr ''12345'')])\<rparr>]"
  by (simp add: create_order_sent make_request_sent update_conv' BASE_URL_def)

theorem create_order_body_witness:
  "map req_json (snd (create_order ''k'' (\<lambda>req. ClientError ''down'')
      (Inr :: json \<Rightarrow> error + json) (JFloat (Finite 10)) (JStr ''USD'') (JStr ''desc'')
      (JStr ''ext-1'') (JInt 600) (JStr ''12345'') JNull JNull JNull)) =
   [Some (JObj
      [(''amount'', JObj [(''currencyCode'', JStr ''USD''), (''amount'', JFloat (Finite 10))]),
       (''description'', JStr ''desc''),
       (''externalId'', JStr ''ext-1''),
       (''timeoutSeconds'', JInt 600),
       (''customerTelegramUserId'', JStr ''12345'')])]"
  using create_order_body
    [of "''k''" "\<lambda>req. ClientError ''down''" "Inr :: json \<Rightarrow> error + json",
     THEN conjunct2]
  by simp

text \<open>
  Claim C4.  In the JSON body \<open>create_order\<close> sends, the key \<open>returnUrl\<close> is present exactly
  when the argument \<open>return_url\<close> is truthy, and then its value is the argument itself;
  otherwise the key is absent, not bound to \<open>None\<close>.  The same holds for \<open>failReturnUrl\<close>
  with \<open>fail_return_url\<close> and for \<open>customData\<close> with \<open>custom_data\<close>.
\<close>

theorem create_order_optional_fields:
  "\<exists>d. map req_json (snd (create_order api_key net OrderPreview amount currency_code
          description external_id timeout_seconds customer_telegram_user_id return_url
          fail_return_url custom_data)) = [Some (JObj d)]
     \<and> map_of d ''returnUrl'' = (if truthy return_url then Some return_url else None)
     \<and> map_of d ''failReturnUrl'' =
         (if truthy fail_return_url then Some fail_return_url else None)
     \<and> map_of d ''customData'' = (if truthy custom_data then Some custom_data else None)"
  by (simp add: create_order_sent make_request_sent update_conv')

theorem create_order_optional_fields_witness:
  "\<exists>d. map req_json (snd (create_order ''k'' (\<lambda>req. ClientError ''down'')
            (Inr :: json \<Rightarrow> error + json) (JFloat (Finite 10)) (JStr ''USD'') (JStr ''desc'')
            (JStr ''ext-1'') (JInt 600) (JStr ''12345'')
            (JStr ''https://shop.example/ok'') JNull (JObj []))) = [Some (JObj d)]
     \<and> map_of d ''returnUrl'' = Some (JStr ''https://shop.example/ok'')
     \<and> map_of d ''failReturnUrl'' = None
     \<and> map_of d ''customData'' = None"
  using create_order_optional_fields
    [of "''k''" "\<lambda>req. ClientError ''down''" "Inr :: json \<Rightarrow> error + json"
        "JFloat (Finite 10)" "JStr ''USD''" "JStr ''desc''" "JStr ''ext-1''" "JInt 600"
        "JStr ''12345''" "JStr ''https://shop.example/ok''" JNull "JObj []"]
  by simp

section \<open>Results of the listing operations\<close>

text \<open>
  Claim C5.  Let the envelope (status 200, JSON object) have the status \<open>SUCCESS\<close>.  When
  \<open>data\<close> is an object whose \<open>items\<close> is a list, \<open>get_order_list\<close> applies the constructor
  \<open>OrderReconciliationItem\<close> to the elements from the first to the last, and when every
  construction succeeds it returns the list of the objects built, in the order of the
  elements.  When \<open>items\<close> is absent, because \<open>data\<close> is missing or is an object without
  that key, it returns the empty list and raises nothing.
\<close>

theorem get_order_list_maps_items_in_order:
  assumes "\<forall>req. net req = Response 200 (JObj env)"
    and "map_of env ''status'' = Some (JStr ''SUCCESS'')"
  shows "(map_of env ''data'' = Some (JObj d) \<and> map_of d ''items'' = Some (JArr xs) \<longrightarrow>
            fst (get_order_list api_key net Item offset count) = map_result Item xs
          \<and> ((\<forall>x \<in> set xs. Item x = Inr (item x)) \<longrightarrow>
               fst (get_order_list api_key net Item offset count) = Inr (map item xs)))
       \<and> (map_of env ''data'' = None \<or>
            (map_of env ''data'' = Some (JObj d) \<and> map_of d ''items'' = None) \<longrightarrow>
            fst (get_order_list api_key net Item offset count) = Inr [])"
  using assms
  by (auto simp add: get_order_list_envelope bind_result_Inr map_result_all_ok)

theorem get_order_list_maps_items_in_order_witness:
  "fst (get_order_list ''k''
     (\<lambda>req. Response 200 (JObj [(''status'', JStr ''SUCCESS''),
        (''data'', JObj [(''items'', JArr [JInt 2, JInt 1, JInt 3])])]))
     (Inr :: json \<Rightarrow> error + json) 0 3) = Inr [JInt 2, JInt 1, JInt 3]
   \<and> fst (get_order_list ''k''
     (\<lambda>req. Response 200 (JObj [(''status'', JStr ''SUCCESS''), (''data'', JObj [])]))
     (Inr :: json \<Rightarrow> error + json) 0 3) = Inr []
   \<and> fst (get_order_list ''k''
     (\<lambda>req. Response 200 (JObj [(''status'', JStr ''SUCCESS'')]))
     (Inr :: json \<Rightarrow> error + json) 0 3) = Inr []"
proof -
  have listed: "fst (get_order_list ''k''
     (\<lambda>req. Response 200 (JObj [(''status'', JStr ''SUCCESS''),
        (''data'', JObj [(''items'', JArr [JInt 2, JInt 1, JInt 3])])]))
     (Inr :: json \<Rightarrow> error + json) 0 3) = Inr [JInt 2, JInt 1, JInt 3]"
    using get_order_list_maps_items_in_order
      [of "\<lambda>req. Response 200 (JObj [(''status'', JStr ''SUCCESS''),
             (''data'', JObj [(''items'', JArr [JInt 2, JInt 1, JInt 3])])])"
          "[(''status'', JStr ''SUCCESS''),
            (''data'', JObj [(''items'', JArr [JInt 2, JInt 1, JInt 3])])]"
          "[(''items'', JArr [JInt 2, JInt 1, JInt 3])]" "[JInt 2, JInt 1, JInt 3]"
          "''k''" "Inr :: json \<Rightarrow> error + json" 0 3 "\<lambda>x. x"]
    by (simp add: bind_result_Inr)
  have no_items: "fst (get_order_list ''k''
     (\<lambda>req. Response 200 (JObj [(''status'', JStr ''SUCCESS''), (''data'', JObj [])]))
     (Inr :: json \<Rightarrow> error + json) 0 3) = Inr []"
    using get_order_list_maps_items_in_order
      [of "\<lambda>req. Response 200 (JObj [(''status'', JStr ''SUCCESS''), (''data'', JObj [])])"
          "[(''status'', JStr ''SUCCESS''), (''data'', JObj [])]"
          "[]" "[]" "''k''" "Inr :: json \<Rightarrow> error + json" 0 3 "\<lambda>x. x"]
    by simp
  have no_data: "fst (get_order_list ''k''
     (\<lambda>req. Response 200 (JObj [(''status'', JStr ''SUCCESS'')]))
     (Inr :: json \<Rightarrow> error + json) 0 3) = Inr []"
    using get_order_list_maps_items_in_order
      [of "\<lambda>req. Response 200 (JObj [(''status'', JStr ''SUCCESS'')])"
          "[(''status'', JStr ''SUCCESS'')]"
          "[]" "[]" "''k''" "Inr :: json \<Rightarrow> error + json" 0 3 "\<lambda>x. x"]
    by simp
  from listed no_items no_data show ?thesis by simp
qed

section \<open>The total amount\<close>

text \<open>
  Claim C3.  Let the envelope (status 200, JSON object) have the status \<open>SUCCESS\<close> and let
  \<open>data\<close> be an object that holds \<open>v\<close> under \<open>totalAmount\<close>.  Then \<open>get_order_amount\<close>
  returns what \<open>int(v)\<close> returns.  When \<open>v\<close> is the integer \<open>n\<close> the result is \<open>n\<close>.  When
  \<open>v\<close> is a numeric string, that is a non-empty string of at most 4300 decimal digits, the
  result is the number the digits denote in base ten, and its negation when a minus sign
  stands in front; so the decimal text of an integer \<open>m\<close> is returned as \<open>m\<close>, and the
  string \<open>"42"\<close> as the integer 42.
\<close>

theorem get_order_amount_coerces_total:
  assumes "\<forall>req. net req = Response 200 (JObj env)"
    and "map_of env ''status'' = Some (JStr ''SUCCESS'')"
    and "map_of env ''data'' = Some (JObj d)"
    and "map_of d ''totalAmount'' = Some v"
  shows "fst (get_order_amount api_key net) = py_int v
       \<and> (v = JInt n \<longrightarrow> fst (get_order_amount api_key net) = Inr n)
       \<and> (s \<noteq> [] \<and> (\<forall>c \<in> set s. 48 \<le> (of_char c :: nat) \<and> (of_char c :: nat) \<le> 57)
            \<and> length s \<le> 4300 \<longrightarrow>
          (v = JStr s \<longrightarrow> fst (get_order_amount api_key net) =
             Inr (int (foldl (\<lambda>a c. 10 * a + (of_char c - 48)) 0 s)))
          \<and> (v = JStr (CHR ''-'' # s) \<longrightarrow> fst (get_order_amount api_key net) =
             Inr (- int (foldl (\<lambda>a c. 10 * a + (of_char c - 48)) 0 s))))
       \<and> (length (str_of_nat (nat \<bar>m\<bar>)) \<le> 4300 \<and> v = JStr (str_of_int m) \<longrightarrow>
            fst (get_order_amount api_key net) = Inr m)
       \<and> (v = JStr ''42'' \<longrightarrow> fst (get_order_amount api_key net) = Inr 42)"
proof -
  have result: "fst (get_order_amount api_key net) = py_int v"
    using assms by (simp add: get_order_amount_envelope bind_result_Inr)
  show ?thesis
    unfolding result
    by (auto simp add: int_of_str_digits int_of_str_minus_digits int_of_str_str_of_int
        int_of_str_42)
qed

theorem get_order_amount_coerces_total_witness:
  "fst (get_order_amount ''k''
     (\<lambda>req. Response 200 (JObj [(''status'', JStr ''SUCCESS''),
                                 (''data'', JObj [(''totalAmount'', JStr ''42'')])]))) = Inr 42
   \<and> fst (get_order_amount ''k''
     (\<lambda>req. Response 200 (JObj [(''status'', JStr ''SUCCESS''),
                                 (''data'', JObj [(''totalAmount'', JStr ''-1500'')])]))) =
       Inr (- 1500)
   \<and> fst (get_order_amount ''k''
     (\<lambda>req. Response 200 (JObj [(''status'', JStr ''SUCCESS''),
                                 (''data'', JObj [(''totalAmount'', JStr ''007'')])]))) = Inr 7
   \<and> fst (get_order_amount ''k''
     (\<lambda>req. Response 200 (JObj [(''status'', JStr ''SUCCESS''),
                                 (''data'', JObj [(''totalAmount'', JInt 99)])]))) = Inr 99
   \<and> fst (get_order_amount ''k''
     (\<lambda>req. Response 200 (JObj [(''status'', JStr ''SUCCESS''),
                                 (''data'', JObj [(''totalAmount'', JStr (str_of_int 600))])]))) =
       Inr 600"
proof -
  have forty_two: "fst (get_order_amount ''k''
     (\<lambda>req. Response 200 (JObj [(''status'', JStr ''SUCCESS''),
                                 (''data'', JObj [(''totalAmount'', JStr ''42'')])]))) = Inr 42"
    using get_order_amount_coerces_total
      [where net = "\<lambda>req. Response 200 (JObj [(''status'', JStr ''SUCCESS''),
                                 (''data'', JObj [(''totalAmount'', JStr ''42'')])])"
         and env = "[(''status'', JStr ''SUCCESS''),
                     (''data'', JObj [(''totalAmount'', JStr ''42'')])]"
         and d = "[(''totalAmount'', JStr ''42'')]" and v = "JStr ''42''"
         and api_key = "''k''" and s = "''42''" and n = 0 and m = 0,
       THEN conjunct2, THEN conjunct2, THEN conjunct2, THEN conjunct2]
    by simp
  have negative: "fst (get_order_amount ''k''
     (\<lambda>req. Response 200 (JObj [(''status'', JStr ''SUCCESS''),
                                 (''data'', JObj [(''totalAmount'', JStr ''-1500'')])]))) =
       Inr (- 1500)"
    using get_order_amount_coerces_total
      [where net = "\<lambda>req. Response 200 (JObj [(''status'', JStr ''SUCCESS''),
                                 (''data'', JObj [(''totalAmount'', JStr ''-1500'')])])"
         and env = "[(''status'', JStr ''SUCCESS''),
                     (''data'', JObj [(''totalAmount'', JStr ''-1500'')])]"
         and d = "[(''totalAmount'', JStr ''-1500'')]" and v = "JStr ''-1500''"
         and api_key = "''k''" and s = "''1500''" and n = 0 and m = 0,
       THEN conjunct2, THEN conjunct2, THEN conjunct1]
    by simp
  have zeros: "fst (get_order_amount ''k''
     (\<lambda>req. Response 200 (JObj [(''status'', JStr ''SUCCESS''),
                                 (''data'', JObj [(''totalAmount'', JStr ''007'')])]))) = Inr 7"
    using get_order_amount_coerces_total
      [where net = "\<lambda>req. Response 200 (JObj [(''status'', JStr ''SUCCESS''),
                                 (''data'', JObj [(''totalAmount'', JStr ''007'')])])"
         and env = "[(''status'', JStr ''SUCCESS''),
                     (''data'', JObj [(''totalAmount'', JStr ''007'')])]"
         and d = "[(''totalAmount'', JStr ''007'')]" and v = "JStr ''007''"
         and api_key = "''k''" and s = "''007''" and n = 0 and m = 0,
       THEN conjunct2, THEN conjunct2, THEN conjunct1]
    by simp
  have number: "fst (get_order_amount ''k''
     (\<lambda>req. Response 200 (JObj [(''status'', JStr ''SUCCESS''),
                                 (''data'', JObj [(''totalAmount'', JInt 99)])]))) = Inr 99"
    using get_order_amount_coerces_total
      [where net = "\<lambda>req. Response 200 (JObj [(''status'', JStr ''SUCCESS''),
                                 (''data'', JObj [(''totalAmount'', JInt 99)])])"
         and env = "[(''status'', JStr ''SUCCESS''),
                     (''data'', JObj [(''totalAmount'', JInt 99)])]"
         and d = "[(''totalAmount'', JInt 99)]" and v = "JInt 99"
         and api_key = "''k''" and s = "''0''" and n = 99 and m = 0,
       THEN conjunct2, THEN conjunct1]
    by simp
  have written: "fst (get_order_amount ''k''
     (\<lambda>req. Response 200 (JObj [(''status'', JStr ''SUCCESS''),
                                 (''data'', JObj [(''totalAmount'', JStr (str_of_int 600))])]))) =
       Inr 600"
    using get_order_amount_coerces_total
      [where net = "\<lambda>req. Response 200 (JObj [(''status'', JStr ''SUCCESS''),
                                 (''data'', JObj [(''totalAmount'', JStr (str_of_int 600))])])"
         and env = "[(''status'', JStr ''SUCCESS''),
                     (''data'', JObj [(''totalAmount'', JStr (str_of_int 600))])]"
         and d = "[(''totalAmount'', JStr (str_of_int 600))]" and v = "JStr (str_of_int 600)"
         and api_key = "''k''" and s = "''0''" and n = 0 and m = 600,
       THEN conjunct2, THEN conjunct2, THEN conjunct2, THEN conjunct1]
    by (simp add: str_of_nat.simps)
  from forty_two negative zeros number written show ?thesis by simp
qed

text \<open>
  Claim C9.  Let the envelope (status 200, JSON object) have the status \<open>SUCCESS\<close> and let
  \<open>totalAmount\<close> be absent, because \<open>data\<close> is missing or is an object without that key.
  Then \<open>int\<close> is applied to \<open>None\<close> and \<open>get_order_amount\<close> raises \<open>TypeError\<close>, which is
  neither \<open>GetOrderAmountException\<close> nor any other failure type of the library: the branch
  that raises the typed failure with the raw payload is not taken.
\<close>

theorem get_order_amount_missing_total:
  assumes "\<forall>req. net req = Response 200 (JObj env)"
    and "map_of env ''status'' = Some (JStr ''SUCCESS'')"
    and "map_of env ''data'' = None \<or>
         (\<exists>d. map_of env ''data'' = Some (JObj d) \<and> map_of d ''totalAmount'' = None)"
  shows "\<exists>e. fst (get_order_amount api_key net) = Inl e \<and> e = TypeError
           \<and> \<not> is_walletpay_failure e
           \<and> (\<forall>payload msg. e \<noteq> GetOrderAmountException payload msg)"
  using assms
  by (auto simp add: get_order_amount_envelope bind_result_Inr)

theorem get_order_amount_missing_total_witness:
  "fst (get_order_amount ''k''
          (\<lambda>req. Response 200 (JObj [(''status'', JStr ''SUCCESS'')]))) = Inl TypeError
   \<and> fst (get_order_amount ''k''
          (\<lambda>req. Response 200 (JObj [(''status'', JStr ''SUCCESS''), (''data'', JObj [])]))) =
       Inl TypeError"
  using get_order_amount_missing_total
      [of "\<lambda>req. Response 200 (JObj [(''status'', JStr ''SUCCESS'')])"
          "[(''status'', JStr ''SUCCESS'')]" "''k''"]
    get_order_amount_missing_total
      [of "\<lambda>req. Response 200 (JObj [(''status'', JStr ''SUCCESS''), (''data'', JObj [])])"
          "[(''status'', JStr ''SUCCESS''), (''data'', JObj [])]" "''k''"]
  by simp

end
